theory Spec2Isabelle
  imports Complex_Main
begin

section \<open>MathForge: a shallow embedding of \<open>src/main.py\<close>\<close>

text \<open>
  The service is a set of Flask views over one global list, \<open>query_history\<close>.
  Each view is modelled by a function from the fields of its request to an
  \<open>outcome\<close>; the global list is passed explicitly.

  Conventions of the embedding:
  \<^item> Python \<open>float\<close> values are modelled by \<open>real\<close>: arithmetic is exact, and the
    overflow, NaN and rounding error of binary64 are outside the model.
  \<^item> Python \<open>int\<close> values are \<open>int\<close>; text is \<open>string\<close>.
  \<^item> A numeric field of a JSON body is a \<open>real option\<close>, \<open>None\<close> when the key is
    absent (the code then takes the default of \<open>data.get\<close>).
  \<^item> \<open>datetime.now()\<close> is not modelled: the \<open>timestamp\<close> of a response is left out,
    and the one of an audit entry is an argument. The texts built by formatting
    floats (\<open>equation\<close>, \<open>steps\<close>) are left out as well.
  \<^item> Every view but the quiz and history ones calls \<open>log_query\<close> before a 200
    response; the log is modelled on its own, by \<open>log_query\<close>, \<open>clear_history\<close> and
    \<open>get_history\<close>. The views \<open>home\<close> and \<open>arithmetic\<close> are not part of the embedding.
\<close>

subsection \<open>Exceptions, outcomes of a view and the \<open>handle_errors\<close> decorator\<close>

datatype py_exception = ValueError | ZeroDivisionError | IndexError | KeyError | TypeError

text \<open>
  What a view function does: it returns \<open>jsonify(body)\<close> (status 200), it returns
  \<open>jsonify({"error": msg}), status\<close>, it raises, or it falls off its end and returns
  \<open>None\<close>, which is no response at all.
\<close>

datatype 'a outcome = Ok 'a | Err nat string | Raised py_exception | NoResponse

fun bind_outcome :: "'a outcome \<Rightarrow> ('a \<Rightarrow> 'b outcome) \<Rightarrow> 'b outcome" where
  "bind_outcome (Ok v) f = f v"
| "bind_outcome (Err n m) f = Err n m"
| "bind_outcome (Raised e) f = Raised e"
| "bind_outcome NoResponse f = NoResponse"

text \<open>
  \<open>handle_errors\<close>: \<open>ValueError\<close> and \<open>ZeroDivisionError\<close> become a JSON error with
  status 400, every other exception one with status 500. A value the view returned,
  \<open>None\<close> included, passes through unchanged.
\<close>

fun handle_errors :: "'a outcome \<Rightarrow> 'a outcome" where
  "handle_errors (Raised ValueError) = Err 400 ''Invalid input''"
| "handle_errors (Raised ZeroDivisionError) = Err 400 ''Division by zero''"
| "handle_errors (Raised e) = Err 500 ''Internal server error''"
| "handle_errors r = r"

text \<open>A structured JSON reply: a 200 body, or an error body with status 400 or 500.\<close>

fun is_json_reply :: "'a outcome \<Rightarrow> bool" where
  "is_json_reply (Ok v) = True"
| "is_json_reply (Err n m) = (n = 400 \<or> n = 500)"
| "is_json_reply (Raised e) = False"
| "is_json_reply NoResponse = False"

subsection \<open>Python primitives\<close>

text \<open>\<open>round(x, n)\<close>: to the nearest multiple of \<open>10\<^sup>-\<^sup>n\<close>, a tie going to the even one.\<close>

definition round_half_even :: "real \<Rightarrow> int" where
  "round_half_even x =
     (let f = \<lfloor>x\<rfloor>; d = x - of_int f
      in if d < 1 / 2 then f else if 1 / 2 < d then f + 1
         else if even f then f else f + 1)"

definition py_round :: "real \<Rightarrow> nat \<Rightarrow> real" where
  "py_round x n = of_int (round_half_even (x * 10 ^ n)) / 10 ^ n"

text \<open>\<open>xs[i]\<close> for \<open>i \<ge> 0\<close>: \<open>IndexError\<close> out of range.\<close>

definition py_index :: "'a list \<Rightarrow> nat \<Rightarrow> 'a outcome" where
  "py_index xs i = (if i < length xs then Ok (xs ! i) else Raised IndexError)"

text \<open>\<open>xs[i:]\<close>: a negative \<open>i\<close> counts from the end, and the bounds are clipped.\<close>

definition py_slice_from :: "'a list \<Rightarrow> int \<Rightarrow> 'a list" where
  "py_slice_from xs i =
     (if i < 0 then drop (nat (int (length xs) + i)) xs else drop (nat i) xs)"

text \<open>\<open>str(n)\<close> of an integer: decimal digits, with \<open>-\<close> in front of a negative one.\<close>

definition digit_char :: "nat \<Rightarrow> char" where
  "digit_char d = ''0123456789'' ! d"

function str_nat :: "nat \<Rightarrow> string" where
  "str_nat n = (if n < 10 then [digit_char n] else str_nat (n div 10) @ [digit_char (n mod 10)])"
  by pat_completeness auto
termination
  by (relation "measure id") auto

definition str_int :: "int \<Rightarrow> string" where
  "str_int i = (if i < 0 then CHR ''-'' # str_nat (nat (- i)) else str_nat (nat i))"

text \<open>
  \<open>int(s)\<close> of a text: white space around it is dropped, then an optional sign and
  at least one decimal digit; anything else is a \<open>ValueError\<close>. (Python also takes
  \<open>_\<close> between digits, which no field of a text split at \<open>_\<close> holds, and digits
  outside ASCII, which are not modelled.)
\<close>

definition is_space :: "char \<Rightarrow> bool" where
  "is_space c = (c \<in> set [CHR '' '', CHR 0x09, CHR 0x0A, CHR 0x0B, CHR 0x0C, CHR 0x0D])"

definition strip :: "string \<Rightarrow> string" where
  "strip s = rev (dropWhile is_space (rev (dropWhile is_space s)))"

definition is_digit :: "char \<Rightarrow> bool" where
  "is_digit c = (c \<in> set ''0123456789'')"

definition digit_val :: "char \<Rightarrow> nat" where
  "digit_val c = of_char c - 48"

definition parse_digits :: "string \<Rightarrow> nat option" where
  "parse_digits ds =
     (if ds = [] \<or> \<not> list_all is_digit ds then None
      else Some (foldl (\<lambda>acc c. 10 * acc + digit_val c) 0 ds))"

definition parse_int :: "string \<Rightarrow> int option" where
  "parse_int s =
     (case strip s of
        [] \<Rightarrow> None
      | c # cs \<Rightarrow>
          if c = CHR ''-'' then map_option (\<lambda>n. - int n) (parse_digits cs)
          else if c = CHR ''+'' then map_option int (parse_digits cs)
          else map_option int (parse_digits (c # cs)))"

definition py_int :: "string \<Rightarrow> int outcome" where
  "py_int s = (case parse_int s of None \<Rightarrow> Raised ValueError | Some i \<Rightarrow> Ok i)"

text \<open>\<open>s.split(sep)\<close> for a one-character separator: never an empty list.\<close>

fun split_on :: "char \<Rightarrow> string \<Rightarrow> string list" where
  "split_on sep [] = [[]]"
| "split_on sep (c # cs) =
     (if c = sep then [] # split_on sep cs
      else (case split_on sep cs of [] \<Rightarrow> [[c]] | p # ps \<Rightarrow> (c # p) # ps))"

subsection \<open>The audit log\<close>

text \<open>
  \<open>query_history\<close> is a list of entries, oldest first. \<open>log_query\<close> appends one and,
  when the list has grown beyond 100, pops the entry at index 0.
\<close>

record ('i, 'o) audit_entry =
  timestamp :: string
  endpoint :: string
  input_of :: 'i
  output_of :: 'o

definition log_query ::
  "string \<Rightarrow> string \<Rightarrow> 'i \<Rightarrow> 'o \<Rightarrow> ('i, 'o) audit_entry list \<Rightarrow> ('i, 'o) audit_entry list" where
  "log_query now ep data result query_history =
     (let h = query_history @ [\<lparr>timestamp = now, endpoint = ep, input_of = data, output_of = result\<rparr>]
      in if length h > 100 then tl h else h)"

text \<open>\<open>clear_history\<close>: the count it reports and the new, empty list.\<close>

definition clear_history :: "'e list \<Rightarrow> nat \<times> 'e list" where
  "clear_history query_history = (length query_history, [])"

text \<open>
  \<open>get_history\<close> is not wrapped in \<open>handle_errors\<close>. The \<open>limit\<close> argument of the
  query string is a text, or absent, and then the integer 20.
\<close>

record 'e history_response =
  total_queries :: nat
  history :: "'e list"

definition get_history :: "string option \<Rightarrow> 'e list \<Rightarrow> 'e history_response outcome" where
  "get_history limit_arg query_history =
     bind_outcome (case limit_arg of None \<Rightarrow> Ok 20 | Some s \<Rightarrow> py_int s)
       (\<lambda>limit. Ok \<lparr>total_queries = length query_history,
                    history = py_slice_from query_history (- limit)\<rparr>)"

text \<open>The operations that change the log, and a run of them from a given log.\<close>

datatype ('i, 'o) log_op = Append string string 'i 'o | Clear

fun apply_log_op :: "('i, 'o) audit_entry list \<Rightarrow> ('i, 'o) log_op \<Rightarrow> ('i, 'o) audit_entry list" where
  "apply_log_op h (Append now ep data result) = log_query now ep data result h"
| "apply_log_op h Clear = snd (clear_history h)"

definition run_log :: "('i, 'o) audit_entry list \<Rightarrow> ('i, 'o) log_op list \<Rightarrow> ('i, 'o) audit_entry list" where
  "run_log h ops = foldl apply_log_op h ops"

definition entry_of :: "string \<times> string \<times> 'i \<times> 'o \<Rightarrow> ('i, 'o) audit_entry" where
  "entry_of q = (case q of (now, ep, data, result) \<Rightarrow>
     \<lparr>timestamp = now, endpoint = ep, input_of = data, output_of = result\<rparr>)"

definition append_of :: "string \<times> string \<times> 'i \<times> 'o \<Rightarrow> ('i, 'o) log_op" where
  "append_of q = (case q of (now, ep, data, result) \<Rightarrow> Append now ep data result)"

subsection \<open>JSON bodies\<close>

text \<open>
  A response body is the dictionary the view passes to \<open>jsonify\<close>, keys in the order
  of the source. \<open>JFmt\<close> is a text built by an f-string from floats: the literal
  pieces and the numbers, in order.
\<close>

datatype piece = Txt string | Num real

datatype json = JNum real | JStr string | JBool bool | JFmt "piece list"
  | JArr "json list" | JObj "(string \<times> json) list"



text \<open>\<open>float(data.get(key, default))\<close> for a numeric field.\<close>

definition get_float :: "real option \<Rightarrow> real \<Rightarrow> real" where
  "get_float field dflt = (case field of None \<Rightarrow> dflt | Some v \<Rightarrow> v)"

text \<open>\<open>d[k]\<close> for a dictionary literal: \<open>KeyError\<close> when the key is missing.\<close>

definition py_lookup :: "('k \<times> 'v) list \<Rightarrow> 'k \<Rightarrow> 'v outcome" where
  "py_lookup d k = (case map_of d k of None \<Rightarrow> Raised KeyError | Some v \<Rightarrow> Ok v)"

subsection \<open>Algebra\<close>



subsection \<open>Geometry\<close>

definition circle :: "real option \<Rightarrow> json outcome" where
  "circle radius_field =
     handle_errors
       (let radius = get_float radius_field 0
        in if radius \<le> 0 then Err 400 ''Radius must be positive''
           else Ok (JObj [(''shape'', JStr ''circle''),
                          (''radius'', JNum radius),
                          (''area'', JNum (py_round (pi * radius ^ 2) 6)),
                          (''circumference'', JNum (py_round (2 * pi * radius) 6)),
                          (''diameter'', JNum (py_round (2 * radius) 6))]))"

definition rectangle :: "real option \<Rightarrow> real option \<Rightarrow> json outcome" where
  "rectangle length_field width_field =
     handle_errors
       (let length = get_float length_field 0; width = get_float width_field 0
        in if length \<le> 0 \<or> width \<le> 0 then Err 400 ''Dimensions must be positive''
           else Ok (JObj [(''shape'', JStr ''rectangle''),
                          (''length'', JNum length),
                          (''width'', JNum width),
                          (''area'', JNum (py_round (length * width) 6)),
                          (''perimeter'', JNum (py_round (2 * (length + width)) 6)),
                          (''diagonal'', JNum (py_round (sqrt (length ^ 2 + width ^ 2)) 6))]))"

text \<open>\<open>side_a\<close> and \<open>side_b\<close> default to \<open>base\<close>; the guard reads \<open>base\<close> and \<open>height\<close>.\<close>

definition triangle ::
  "real option \<Rightarrow> real option \<Rightarrow> real option \<Rightarrow> real option \<Rightarrow> json outcome" where
  "triangle base_field height_field side_a_field side_b_field =
     handle_errors
       (let base = get_float base_field 0; height = get_float height_field 0;
            side_a = get_float side_a_field base; side_b = get_float side_b_field base
        in if base \<le> 0 \<or> height \<le> 0 then Err 400 ''Base and height must be positive''
           else Ok (JObj [(''shape'', JStr ''triangle''),
                          (''base'', JNum base),
                          (''height'', JNum height),
                          (''area'', JNum (py_round (0.5 * base * height) 6)),
                          (''perimeter'', JNum (py_round (base + side_a + side_b) 6))]))"

definition cube :: "real option \<Rightarrow> json outcome" where
  "cube side_field =
     handle_errors
       (let side = get_float side_field 0
        in if side \<le> 0 then Err 400 ''Side length must be positive''
           else Ok (JObj [(''shape'', JStr ''cube''),
                          (''side'', JNum side),
                          (''volume'', JNum (py_round (side ^ 3) 6)),
                          (''surface_area'', JNum (py_round (6 * side ^ 2) 6)),
                          (''space_diagonal'', JNum (py_round (side * sqrt 3) 6))]))"

definition sphere :: "real option \<Rightarrow> json outcome" where
  "sphere radius_field =
     handle_errors
       (let radius = get_float radius_field 0
        in if radius \<le> 0 then Err 400 ''Radius must be positive''
           else Ok (JObj [(''shape'', JStr ''sphere''),
                          (''radius'', JNum radius),
                          (''volume'', JNum (py_round ((4 / 3) * pi * radius ^ 3) 6)),
                          (''surface_area'', JNum (py_round (4 * pi * radius ^ 2) 6))]))"

subsection \<open>Statistics\<close>



text \<open>The distinct values of a list, each at the place of its first occurrence.\<close>

definition first_occurrences :: "'a list \<Rightarrow> 'a list" where
  "first_occurrences xs = rev (remdups (rev xs))"


subsection \<open>Quiz\<close>

text \<open>
  The values the \<open>random\<close> module returns, one field for each call in
  \<open>generate_quiz\<close>, and the ranges the module keeps them in.
\<close>

record quiz_draws =
  type_choice :: string
  arith_a :: int
  arith_b :: int
  arith_op :: string
  algebra_a :: int
  algebra_b :: int
  circle_radius :: int



text \<open>
  \<open>type_arg\<close> is the \<open>type\<close> argument of the query string. No branch of the source
  is taken for a \<open>quiz_type\<close> outside the three, and the view returns \<open>None\<close>. The
  multiplication sign of the question text is U+00D7, two bytes in UTF-8.
\<close>

definition generate_quiz :: "string option \<Rightarrow> quiz_draws \<Rightarrow> json outcome" where
  "generate_quiz type_arg rnd =
     handle_errors
       (let quiz_type = (case type_arg of None \<Rightarrow> type_choice rnd | Some t \<Rightarrow> t)
        in if quiz_type = ''arithmetic'' then
             (let a = arith_a rnd; b = arith_b rnd; op = arith_op rnd
              in bind_outcome
                   (py_lookup [(''add'', (''+'', a + b)),
                               (''subtract'', (''-'', a - b)),
                               (''multiply'', ([CHR 0xC3, CHR 0x97], a * b))] op)
                   (\<lambda>(symbol, answer).
                      Ok (JObj [(''type'', JStr ''arithmetic''),
                                (''question'', JStr (''What is '' @ str_int a @ '' '' @ symbol
                                                     @ '' '' @ str_int b @ ''?'')),
                                (''answer_id'', JStr (quiz_type @ ''_'' @ str_int a @ ''_''
                                                      @ str_int b @ ''_'' @ op)),
                                (''difficulty'', JStr ''easy'')])))
           else if quiz_type = ''algebra'' then
             (let a = algebra_a rnd; b = algebra_b rnd
              in if a = 0 then Raised ZeroDivisionError
                 else Ok (JObj [(''type'', JStr ''linear_equation''),
                                (''question'', JStr (''Solve for x: '' @ str_int a @ ''x + ''
                                                     @ str_int b @ '' = 0'')),
                                (''answer_id'', JStr (''algebra_'' @ str_int a @ ''_'' @ str_int b)),
                                (''difficulty'', JStr ''medium'')]))
           else if quiz_type = ''geometry'' then
             (let radius = circle_radius rnd
              in Ok (JObj [(''type'', JStr ''geometry''),
                           (''question'', JStr (''What is the area of a circle with radius ''
                                                @ str_int radius @ ''?'')),
                           (''answer_id'', JStr (''circle_'' @ str_int radius)),
                           (''difficulty'', JStr ''medium''),
                           (''unit'', JStr ''square units'')]))
           else NoResponse)"

text \<open>
  The \<open>if\<close>/\<open>elif\<close> chain of \<open>validate_quiz\<close>, which computes \<open>correct_answer\<close> from
  the fields of the token, reading them in the order of the source.
\<close>

definition correct_answer_of :: "string list \<Rightarrow> real outcome" where
  "correct_answer_of parts =
     bind_outcome (py_index parts 0) (\<lambda>family.
       if family = ''arithmetic'' then
         bind_outcome (py_index parts 1) (\<lambda>p1. bind_outcome (py_int p1) (\<lambda>a.
         bind_outcome (py_index parts 2) (\<lambda>p2. bind_outcome (py_int p2) (\<lambda>b.
         bind_outcome (py_index parts 3) (\<lambda>op.
         bind_outcome (py_lookup [(''add'', a + b), (''subtract'', a - b),
                                  (''multiply'', a * b)] op)
           (\<lambda>v. Ok (real_of_int v)))))))
       else if family = ''algebra'' then
         bind_outcome (py_index parts 1) (\<lambda>p1. bind_outcome (py_int p1) (\<lambda>a.
         bind_outcome (py_index parts 2) (\<lambda>p2. bind_outcome (py_int p2) (\<lambda>b.
           if a = 0 then Raised ZeroDivisionError
           else Ok (real_of_int (- b) / real_of_int a)))))
       else if family = ''circle'' then
         bind_outcome (py_index parts 1) (\<lambda>p1. bind_outcome (py_int p1) (\<lambda>radius.
           Ok (py_round (pi * real_of_int (radius ^ 2)) 2)))
       else Err 400 ''Invalid answer_id'')"

text \<open>
  \<open>answer_id\<close> is a text, or absent and then the empty text; \<open>answer\<close> is a number, or
  absent and then 0.
\<close>

definition validate_quiz :: "string option \<Rightarrow> real option \<Rightarrow> json outcome" where
  "validate_quiz answer_id_field answer_field =
     handle_errors
       (let answer_id = (case answer_id_field of None \<Rightarrow> [] | Some s \<Rightarrow> s);
            user_answer = get_float answer_field 0;
            parts = split_on CHR ''_'' answer_id
        in bind_outcome (correct_answer_of parts) (\<lambda>correct_answer.
             let is_correct = (\<bar>user_answer - correct_answer\<bar> < 0.01)
             in Ok (JObj [(''correct'', JBool is_correct),
                          (''user_answer'', JNum user_answer),
                          (''correct_answer'', JNum (py_round correct_answer 6)),
                          (''message'', JStr (if is_correct then ''Correct! Well done!''
                                              else ''Incorrect. Try again!''))])))"

section \<open>Properties\<close>

subsection \<open>The audit log\<close>

lemma log_query_drop:
  assumes "length h \<le> 100"
  shows "log_query now ep d r h = drop (length h + 1 - 100) (h @ [entry_of (now, ep, d, r)])"
proof (cases "length h = 100")
  case True
  then have "length h + 1 - 100 = Suc 0" by simp
  moreover have "h \<noteq> []" using True by auto
  ultimately show ?thesis using True
    by (simp add: log_query_def entry_of_def Let_def drop_Suc)
next
  case False
  then show ?thesis using assms
    by (simp add: log_query_def entry_of_def Let_def)
qed

lemma apply_log_op_length: "length h \<le> 100 \<Longrightarrow> length (apply_log_op h op) \<le> 100"
  by (cases op) (auto simp: log_query_def clear_history_def Let_def)

lemma run_log_length: "length h \<le> 100 \<Longrightarrow> length (run_log h ops) \<le> 100"
  unfolding run_log_def
  by (induction ops arbitrary: h) (simp_all add: apply_log_op_length)

lemma run_log_appends:
  "length h \<le> 100 \<Longrightarrow>
   run_log h (map append_of qs) = drop (length h + length qs - 100) (h @ map entry_of qs)"
proof (induction qs arbitrary: h)
  case Nil
  then show ?case by (simp add: run_log_def)
next
  case (Cons q qs)
  obtain now ep d r where q: "q = (now, ep, d, r)" by (cases q) auto
  let ?e = "entry_of (now, ep, d, r)"
  let ?k = "length h + 1 - 100"
  let ?h' = "log_query now ep d r h"
  have h': "?h' = drop ?k (h @ [?e])" using Cons.prems by (rule log_query_drop)
  have len: "length ?h' \<le> 100" using Cons.prems by (simp add: h')
  have "run_log h (map append_of (q # qs)) = run_log ?h' (map append_of qs)"
    by (simp add: run_log_def q append_of_def)
  also have "\<dots> = drop (length ?h' + length qs - 100) (?h' @ map entry_of qs)"
    using len by (rule Cons.IH)
  also have "?h' @ map entry_of qs = drop ?k (h @ map entry_of (q # qs))"
    using Cons.prems by (simp add: h' q)
  also have "drop (length ?h' + length qs - 100) (drop ?k (h @ map entry_of (q # qs)))
      = drop (length h + length (q # qs) - 100) (h @ map entry_of (q # qs))"
  proof -
    have "length ?h' + length qs - 100 + ?k = length h + length (q # qs) - 100"
      using Cons.prems by (simp add: h')
    then show ?thesis by (simp only: drop_drop)
  qed
  finally show ?case .
qed

text \<open>
  Claim C2. Starting from the empty list, every run of appends and clears leaves at
  most 100 entries. \<open>log_query\<close> puts the new entry at the end and, when that makes 101,
  removes the entry at the front. After a run of appends the list is the last 100 of
  the appended entries (all of them when there are fewer), oldest first.
\<close>

theorem audit_log_keeps_last_100:
  "length (run_log [] ops) \<le> 100
   \<and> log_query now ep d r h = (if length h < 100 then h @ [entry_of (now, ep, d, r)]
        else tl (h @ [entry_of (now, ep, d, r)]))
   \<and> run_log [] (map append_of qs) = drop (length qs - 100) (map entry_of qs)
   \<and> length (run_log [] (map append_of qs)) = min 100 (length qs)"
proof -
  have "run_log [] (map append_of qs) = drop (length qs - 100) (map entry_of qs)"
    using run_log_appends [of "[]" qs] by simp
  moreover have "length (run_log [] ops) \<le> 100" by (rule run_log_length) simp
  moreover have "log_query now ep d r h = (if length h < 100 then h @ [entry_of (now, ep, d, r)]
        else tl (h @ [entry_of (now, ep, d, r)]))"
    by (auto simp: log_query_def entry_of_def Let_def)
  ultimately show ?thesis by simp
qed

subsection \<open>Evaluation rules and rounding\<close>

lemmas py_eval_simps = py_round_def round_half_even_def get_float_def Let_def

lemmas token_eval_simps = py_index_def py_int_def parse_int_def strip_def is_space_def
  parse_digits_def is_digit_def digit_val_def py_lookup_def


subsection \<open>Algebra\<close>







subsection \<open>Geometry\<close>

text \<open>The guards that the five views do have.\<close>

lemma geometry_guards:
  "radius \<le> 0 \<Longrightarrow> circle (Some radius) = Err 400 ''Radius must be positive''"
  "l \<le> 0 \<or> w \<le> 0 \<Longrightarrow>
     rectangle (Some l) (Some w) = Err 400 ''Dimensions must be positive''"
  "base \<le> 0 \<or> height \<le> 0 \<Longrightarrow>
     triangle (Some base) (Some height) side_a_field side_b_field =
       Err 400 ''Base and height must be positive''"
  "side \<le> 0 \<Longrightarrow> cube (Some side) = Err 400 ''Side length must be positive''"
  "radius \<le> 0 \<Longrightarrow> sphere (Some radius) = Err 400 ''Radius must be positive''"
  by (auto simp: circle_def rectangle_def triangle_def cube_def sphere_def get_float_def Let_def)

text \<open>
  Claim C3. At base 3, height 4 and both sides \<open>-5\<close> the triangle view answers 200, with
  the perimeter \<open>-7\<close>: \<open>side_a\<close> and \<open>side_b\<close> are not checked.
\<close>

theorem triangle_accepts_negative_sides:
  "triangle (Some 3) (Some 4) (Some (- 5)) (Some (- 5)) =
     Ok (JObj [(''shape'', JStr ''triangle''), (''base'', JNum 3), (''height'', JNum 4),
               (''area'', JNum 6), (''perimeter'', JNum (- 7))])"
  by (simp add: triangle_def py_eval_simps)

subsection \<open>Quiz validation\<close>

text \<open>
  Claim C6. A token with too few fields, and a token with an operation outside
  \<open>add\<close>, \<open>subtract\<close>, \<open>multiply\<close>, are answered with status 500: the \<open>IndexError\<close> and
  the \<open>KeyError\<close> reach the last handler of \<open>handle_errors\<close>.
\<close>

theorem validate_quiz_malformed_token_500:
  "validate_quiz (Some ''arithmetic_1_2'') (Some 3) = Err 500 ''Internal server error''
   \<and> validate_quiz (Some ''arithmetic_1_2_divide'') (Some 3) = Err 500 ''Internal server error''"
  by (simp add: validate_quiz_def correct_answer_of_def token_eval_simps get_float_def)



subsection \<open>History and unhandled requests\<close>

text \<open>
  Claim C8. With \<open>limit=0\<close> the view returns the whole log: \<open>query_history[-0:]\<close> is
  \<open>query_history[0:]\<close>.
\<close>

theorem get_history_limit_zero_returns_all:
  "get_history (Some ''0'') query_history =
     Ok \<lparr>total_queries = length query_history, history = query_history\<rparr>"
  by (simp add: get_history_def token_eval_simps py_slice_from_def)

text \<open>
  Claim C9. \<open>GET /api/history?limit=abc\<close> raises \<open>ValueError\<close> out of a view that
  \<open>handle_errors\<close> does not wrap, and \<open>GET /api/quiz?type=foo\<close> returns \<open>None\<close>: neither is
  a JSON reply.
\<close>

theorem unhandled_requests:
  "get_history (Some ''abc'') query_history = Raised ValueError
   \<and> \<not> is_json_reply (get_history (Some ''abc'') query_history)
   \<and> generate_quiz (Some ''foo'') rnd = NoResponse
   \<and> \<not> is_json_reply (generate_quiz (Some ''foo'') rnd)"
  by (simp add: get_history_def generate_quiz_def token_eval_simps)

subsection \<open>Statistics: the mode\<close>



lemma first_occurrences_set [simp]: "set (first_occurrences xs) = set xs"
  by (simp add: first_occurrences_def)

lemma first_occurrences_distinct [simp]: "distinct (first_occurrences xs)"
  by (simp add: first_occurrences_def)










subsection \<open>Printing and reading integers\<close>

lemma digit_cases:
  assumes "d < (10::nat)"
  shows "d = 0 \<or> d = 1 \<or> d = 2 \<or> d = 3 \<or> d = 4 \<or> d = 5 \<or> d = 6 \<or> d = 7 \<or> d = 8 \<or> d = 9"
  using assms by arith

lemma digit_char_props:
  assumes "d < 10"
  shows "digit_val (digit_char d) = d" and "is_digit (digit_char d)"
    and "\<not> is_space (digit_char d)" and "digit_char d \<noteq> CHR ''-''"
    and "digit_char d \<noteq> CHR ''+''" and "digit_char d \<noteq> CHR ''_''"
  using digit_cases [OF assms]
  by (auto simp: digit_char_def digit_val_def is_digit_def is_space_def)

lemma str_nat_unfold:
  "str_nat n = (if n < 10 then [digit_char n] else str_nat (n div 10) @ [digit_char (n mod 10)])"
  by (rule str_nat.simps)

declare str_nat.simps [simp del]

lemma str_nat_digits: "list_all is_digit (str_nat n)"
proof (induction n rule: str_nat.induct)
  case (1 n)
  show ?case
  proof (cases "n < 10")
    case True
    then show ?thesis by (subst str_nat_unfold) (simp add: digit_char_props)
  next
    case False
    then show ?thesis using 1 by (subst str_nat_unfold) (simp add: digit_char_props)
  qed
qed

lemma str_nat_not_empty: "str_nat n \<noteq> []"
  by (subst str_nat_unfold) simp

lemma str_nat_value: "foldl (\<lambda>acc c. 10 * acc + digit_val c) 0 (str_nat n) = n"
proof (induction n rule: str_nat.induct)
  case (1 n)
  show ?case
  proof (cases "n < 10")
    case True
    then show ?thesis by (subst str_nat_unfold) (simp add: digit_char_props)
  next
    case False
    then show ?thesis using 1 by (subst str_nat_unfold) (simp add: digit_char_props)
  qed
qed

lemma parse_digits_str_nat: "parse_digits (str_nat n) = Some n"
  by (simp add: parse_digits_def str_nat_digits str_nat_not_empty str_nat_value)

lemma is_digit_props:
  assumes "is_digit c"
  shows "\<not> is_space c" and "c \<noteq> CHR ''-''" and "c \<noteq> CHR ''+''" and "c \<noteq> CHR ''_''"
  using assms by (auto simp: is_digit_def is_space_def)

lemma strip_id:
  assumes "s \<noteq> []" and "\<not> is_space (hd s)" and "\<not> is_space (last s)"
  shows "strip s = s"
proof -
  have "dropWhile is_space s = s" using assms by (cases s) auto
  moreover have "dropWhile is_space (rev s) = rev s"
    using assms by (cases "rev s") (auto simp: last_rev [symmetric] simp del: last_rev)
  ultimately show ?thesis by (simp add: strip_def)
qed

lemma list_all_hd_last:
  assumes "list_all P s" and "s \<noteq> []"
  shows "P (hd s)" and "P (last s)"
  using assms by (auto simp: list_all_iff)

lemma strip_str_nat: "strip (str_nat n) = str_nat n"
  using list_all_hd_last [OF str_nat_digits str_nat_not_empty, of n]
  by (intro strip_id) (simp_all add: str_nat_not_empty is_digit_props)

lemma parse_int_str_int: "parse_int (str_int i) = Some i"
proof (cases "i < 0")
  case True
  let ?s = "CHR ''-'' # str_nat (nat (- i))"
  have "last ?s = last (str_nat (nat (- i)))" by (simp add: str_nat_not_empty)
  then have "\<not> is_space (last ?s)"
    using list_all_hd_last(2) [OF str_nat_digits str_nat_not_empty, of "nat (- i)"]
    by (simp add: is_digit_props)
  moreover have "\<not> is_space (hd ?s)" by (simp add: is_space_def)
  ultimately have "strip ?s = ?s" by (intro strip_id) simp_all
  then show ?thesis using True
    by (simp add: parse_int_def str_int_def parse_digits_str_nat)
next
  case False
  obtain c cs where s: "str_nat (nat i) = c # cs"
    using str_nat_not_empty [of "nat i"] by (cases "str_nat (nat i)") auto
  have "is_digit c" using str_nat_digits [of "nat i"] by (simp add: s)
  then have c: "c \<noteq> CHR ''-''" "c \<noteq> CHR ''+''" by (simp_all add: is_digit_props)
  have "parse_digits (c # cs) = Some (nat i)" using parse_digits_str_nat [of "nat i"] by (simp add: s)
  moreover have "strip (c # cs) = c # cs" using strip_str_nat [of "nat i"] by (simp add: s)
  ultimately show ?thesis using False c
    by (simp add: parse_int_def str_int_def s)
qed

lemma py_int_str_int: "py_int (str_int i) = Ok i"
  by (simp add: py_int_def parse_int_str_int)


subsection \<open>Splitting\<close>

lemma split_on_not_empty: "split_on sep s \<noteq> []"
  by (induction s) (auto split: list.splits)




subsection \<open>Quiz tokens\<close>









subsection \<open>History: the limits that work\<close>

text \<open>
  For a limit of at least 1, and for the default of 20, the view returns the last
  entries of the log, oldest first, as many as the limit or as the log has.
\<close>

lemma get_history_positive_limit:
  assumes "0 < n"
  shows "get_history (Some (str_int n)) query_history =
           Ok \<lparr>total_queries = length query_history,
               history = drop (length query_history - nat n) query_history\<rparr>"
    and "length (drop (length query_history - nat n) query_history)
           = min (nat n) (length query_history)"
proof -
  have "nat (int (length query_history) - n) = length query_history - nat n"
    using assms by simp
  then show "get_history (Some (str_int n)) query_history =
           Ok \<lparr>total_queries = length query_history,
               history = drop (length query_history - nat n) query_history\<rparr>"
    using assms by (simp add: get_history_def py_int_str_int py_slice_from_def)
  show "length (drop (length query_history - nat n) query_history)
           = min (nat n) (length query_history)"
    by simp
qed

lemma get_history_default_limit:
  "get_history None query_history =
     Ok \<lparr>total_queries = length query_history,
         history = drop (length query_history - 20) query_history\<rparr>"
proof -
  have "nat (int (length query_history) - 20) = length query_history - 20" by simp
  then show ?thesis by (simp add: get_history_def py_slice_from_def)
qed

end
